theory Spec2Isabelle
  imports Main "HOL-Library.Word"
begin

unbundle bit_operations_syntax

section \<open>JavaScript strings\<close>

text \<open>
  A JavaScript string is a sequence of UTF-16 code units, and \<open>length\<close>, \<open>trim\<close>,
  \<open>split\<close> and \<open>===\<close> all work on code units. ASCII literals of the source are written
  with \<open>ascii\<close>; the two emoji of \<open>ChatInterface\<close> are given by their code units.
\<close>

type_synonym jsstring = "16 word list"

definition ascii :: "string \<Rightarrow> jsstring" where
  "ascii s = map of_char s"

text \<open>
  \<open>String.prototype.trim\<close> strips the code points of WhiteSpace and LineTerminator
  (ECMA-262, 22.1.3.32): TAB, LF, VT, FF, CR, SP, NBSP, U+1680, U+2000..U+200A, U+2028,
  U+2029, U+202F, U+205F, U+3000 and U+FEFF. All of them are single code units.
\<close>

definition is_ws :: "16 word \<Rightarrow> bool" where
  "is_ws c \<longleftrightarrow>
     (0x9 \<le> c \<and> c \<le> 0xD) \<or> c = 0x20 \<or> c = 0xA0 \<or> c = 0x1680 \<or>
     (0x2000 \<le> c \<and> c \<le> 0x200A) \<or> c = 0x2028 \<or> c = 0x2029 \<or> c = 0x202F \<or>
     c = 0x205F \<or> c = 0x3000 \<or> c = 0xFEFF"

definition trim :: "jsstring \<Rightarrow> jsstring" where
  "trim s = rev (dropWhile is_ws (rev (dropWhile is_ws s)))"

text \<open>
  \<open>s.split(sep)\<close> for a separator of one code unit: the pieces between the
  occurrences of \<open>sep\<close>, empty pieces included; \<open>"".split("\n")\<close> is \<open>[""]\<close>.
\<close>

fun split_on :: "16 word \<Rightarrow> jsstring \<Rightarrow> jsstring list" where
  "split_on sep [] = [[]]"
| "split_on sep (c # cs) =
     (if c = sep then [] # split_on sep cs
      else (case split_on sep cs of
              [] \<Rightarrow> [[c]]
            | p # ps \<Rightarrow> (c # p) # ps))"

text \<open>\<open>pieces.join(sep)\<close>, the inverse of \<open>split\<close>.\<close>

fun join_with :: "16 word \<Rightarrow> jsstring list \<Rightarrow> jsstring" where
  "join_with sep [] = []"
| "join_with sep [p] = p"
| "join_with sep (p # q # ps) = p @ sep # join_with sep (q # ps)"

text \<open>Decimal rendering of a natural number, as \<open>Number.prototype.toString\<close> gives it.\<close>

definition digit :: "nat \<Rightarrow> 16 word" where
  "digit d = 0x30 + of_nat d"

fun nat_digits :: "nat \<Rightarrow> jsstring" where
  "nat_digits n = (if n < 10 then [digit n] else nat_digits (n div 10) @ [digit (n mod 10)])"

declare nat_digits.simps [simp del]

definition int_toString :: "int \<Rightarrow> jsstring" where
  "int_toString i = (if i < 0 then 0x2D # nat_digits (nat (- i)) else nat_digits (nat i))"

section \<open>JSON values\<close>

text \<open>
  What \<open>response.json()\<close> can produce. An object carries its own properties in
  enumeration order. Numbers are the integer-valued ones of magnitude below 1e21, which
  JavaScript prints digit by digit; fractions and larger numbers are left out. The
  handlers only test a number for zero and hand it to \<open>JSON.stringify\<close>. A property
  that is absent reads as \<open>undefined\<close>, which is \<open>None\<close> in \<open>json option\<close>.
\<close>

datatype json =
    JNull
  | JBool bool
  | JNum int
  | JStr jsstring
  | JArr "json list"
  | JObj "(jsstring \<times> json) list"

text \<open>
  Reading \<open>v.key\<close> for a value other than \<open>null\<close>: an object's own property, and
  \<open>undefined\<close> on every other shape (none of the keys read by this program is defined
  on the prototypes of strings, numbers, booleans or arrays).
\<close>

fun get_prop :: "json \<Rightarrow> jsstring \<Rightarrow> json option" where
  "get_prop (JObj kvs) k = map_of kvs k"
| "get_prop _ k = None"

text \<open>\<open>ToBoolean\<close>, the test behind \<open>?:\<close>, \<open>&&\<close>, \<open>||\<close> and \<open>Boolean\<close>.\<close>

fun truthy :: "json option \<Rightarrow> bool" where
  "truthy None = False"
| "truthy (Some JNull) = False"
| "truthy (Some (JBool b)) = b"
| "truthy (Some (JNum n)) = (n \<noteq> 0)"
| "truthy (Some (JStr s)) = (s \<noteq> [])"
| "truthy (Some (JArr xs)) = True"
| "truthy (Some (JObj kvs)) = True"

subsection \<open>\<open>JSON.stringify\<close>\<close>

definition hex_digit :: "16 word \<Rightarrow> 16 word" where
  "hex_digit d = (if d < 10 then 0x30 + d else 0x57 + d)"

definition unicode_escape :: "16 word \<Rightarrow> jsstring" where
  "unicode_escape c =
     [0x5C, 0x75, hex_digit (drop_bit 12 c AND 0xF), hex_digit (drop_bit 8 c AND 0xF),
      hex_digit (drop_bit 4 c AND 0xF), hex_digit (c AND 0xF)]"

definition is_high_surrogate :: "16 word \<Rightarrow> bool" where
  "is_high_surrogate c \<longleftrightarrow> 0xD800 \<le> c \<and> c \<le> 0xDBFF"

definition is_low_surrogate :: "16 word \<Rightarrow> bool" where
  "is_low_surrogate c \<longleftrightarrow> 0xDC00 \<le> c \<and> c \<le> 0xDFFF"

text \<open>\<open>QuoteJSONString\<close> on one code unit that is not part of a surrogate pair.\<close>

definition quote_unit :: "16 word \<Rightarrow> jsstring" where
  "quote_unit c =
     (if c = 0x08 then [0x5C, 0x62]
      else if c = 0x09 then [0x5C, 0x74]
      else if c = 0x0A then [0x5C, 0x6E]
      else if c = 0x0C then [0x5C, 0x66]
      else if c = 0x0D then [0x5C, 0x72]
      else if c = 0x22 then [0x5C, 0x22]
      else if c = 0x5C then [0x5C, 0x5C]
      else if c < 0x20 \<or> is_high_surrogate c \<or> is_low_surrogate c then unicode_escape c
      else [c])"

fun quote_units :: "jsstring \<Rightarrow> jsstring" where
  "quote_units [] = []"
| "quote_units [c] = quote_unit c"
| "quote_units (c # d # cs) =
     (if is_high_surrogate c \<and> is_low_surrogate d then c # d # quote_units cs
      else quote_unit c @ quote_units (d # cs))"

definition quote :: "jsstring \<Rightarrow> jsstring" where
  "quote s = 0x22 # quote_units s @ [0x22]"

text \<open>
  \<open>SerializeJSONProperty\<close> with the gap \<open>gap\<close> (empty for \<open>JSON.stringify(v)\<close>, two
  spaces for \<open>JSON.stringify(v, null, 2)\<close>) at the current indentation \<open>ind\<close>.
\<close>

fun join_members :: "jsstring \<Rightarrow> jsstring list \<Rightarrow> jsstring" where
  "join_members sep [] = []"
| "join_members sep [p] = p"
| "join_members sep (p # q # ps) = p @ sep @ join_members sep (q # ps)"

definition wrap_members :: "16 word \<Rightarrow> 16 word \<Rightarrow> jsstring \<Rightarrow> jsstring \<Rightarrow> jsstring list \<Rightarrow> jsstring" where
  "wrap_members l r gap ind partial =
     (if partial = [] then [l, r]
      else if gap = [] then l # join_members [0x2C] partial @ [r]
      else l # 0x0A # (ind @ gap) @
           join_members (0x2C # 0x0A # (ind @ gap)) partial @ 0x0A # ind @ [r])"

fun serialize :: "jsstring \<Rightarrow> jsstring \<Rightarrow> json \<Rightarrow> jsstring"
  and serialize_elems :: "jsstring \<Rightarrow> jsstring \<Rightarrow> json list \<Rightarrow> jsstring list"
  and serialize_props :: "jsstring \<Rightarrow> jsstring \<Rightarrow> (jsstring \<times> json) list \<Rightarrow> jsstring list"
where
  "serialize gap ind JNull = ascii ''null''"
| "serialize gap ind (JBool b) = (if b then ascii ''true'' else ascii ''false'')"
| "serialize gap ind (JNum n) = int_toString n"
| "serialize gap ind (JStr s) = quote s"
| "serialize gap ind (JArr xs) =
     wrap_members 0x5B 0x5D gap ind (serialize_elems gap (ind @ gap) xs)"
| "serialize gap ind (JObj kvs) =
     wrap_members 0x7B 0x7D gap ind (serialize_props gap (ind @ gap) kvs)"
| "serialize_elems gap ind [] = []"
| "serialize_elems gap ind (x # xs) = serialize gap ind x # serialize_elems gap ind xs"
| "serialize_props gap ind [] = []"
| "serialize_props gap ind ((k, v) # kvs) =
     (quote k @ 0x3A # (if gap = [] then [] else [0x20]) @ serialize gap ind v)
       # serialize_props gap ind kvs"

text \<open>\<open>JSON.stringify(v, null, n)\<close>: the gap is \<open>min n 10\<close> spaces.\<close>

definition JSON_stringify :: "nat \<Rightarrow> json \<Rightarrow> jsstring" where
  "JSON_stringify n v = serialize (replicate (min n 10) 0x20) [] v"

section \<open>Exceptions and the fetch interface\<close>

text \<open>
  What a \<open>catch\<close> clause can receive: an object of class \<open>Error\<close> or of one of its
  subclasses, with its \<open>message\<close>, or any other thrown value.
\<close>

datatype error_class = Error | TypeError | SyntaxError

datatype thrown = ErrorObj error_class jsstring | NonError json

text \<open>\<open>error instanceof Error ? error.message : fallback\<close>, as the four handlers write it.\<close>

fun message_or :: "jsstring \<Rightarrow> thrown \<Rightarrow> jsstring" where
  "message_or fallback (ErrorObj c m) = m"
| "message_or fallback (NonError v) = fallback"

datatype http_method = GET | POST | DELETE

datatype file_handle = File jsstring

datatype request_body = NoBody | TextBody jsstring | FormData "(jsstring \<times> file_handle) list"

record request =
  req_method :: http_method
  url :: jsstring
  headers :: "(jsstring \<times> jsstring) list"
  body :: request_body

text \<open>
  The outcome of one \<open>fetch\<close>. Without an abort signal, \<open>fetch\<close> rejects only when no
  response arrives, and then with a \<open>TypeError\<close> (Fetch standard, 5.6); any response,
  whatever its status, resolves. \<open>response.json()\<close> resolves with the decoded body or
  rejects with a \<open>SyntaxError\<close>.
\<close>

datatype body_result = Parsed json | Unparsable jsstring

record http_response =
  ok :: bool
  statusText :: jsstring
  payload :: body_result

datatype fetch_outcome = NetworkFailure jsstring | Responded http_response

fun await_fetch :: "fetch_outcome \<Rightarrow> thrown + http_response" where
  "await_fetch (NetworkFailure m) = Inl (ErrorObj TypeError m)"
| "await_fetch (Responded r) = Inr r"

fun response_json :: "http_response \<Rightarrow> thrown + json" where
  "response_json r =
     (case payload r of
        Unparsable m \<Rightarrow> Inl (ErrorObj SyntaxError m)
      | Parsed v \<Rightarrow> Inr v)"

section \<open>services/api.ts: ApiService\<close>

definition API_BASE :: jsstring where
  "API_BASE = ascii ''http://127.0.0.1:8002''"

definition json_headers :: "(jsstring \<times> jsstring) list" where
  "json_headers = [(ascii ''Content-Type'', ascii ''application/json'')]"

text \<open>
  Each method is split at its \<open>await fetch(...)\<close>: \<open>_request\<close> is the request it issues,
  \<open>_result\<close> what the call resolves (\<open>Inr\<close>) or rejects (\<open>Inl\<close>) with, given the outcome of
  the fetch.
\<close>

definition query_request :: "jsstring \<Rightarrow> request" where
  "query_request question =
     \<lparr>req_method = POST, url = API_BASE @ ascii ''/query'', headers = json_headers,
      body = TextBody (JSON_stringify 0 (JObj [(ascii ''query'', JStr question)]))\<rparr>"

definition query_result :: "fetch_outcome \<Rightarrow> thrown + json" where
  "query_result out =
     (case await_fetch out of
        Inl e \<Rightarrow> Inl e
      | Inr response \<Rightarrow>
          if \<not> ok response
          then Inl (ErrorObj Error (ascii ''Query failed: '' @ statusText response))
          else response_json response)"

definition uploadDocuments_request :: "file_handle list \<Rightarrow> request" where
  "uploadDocuments_request files =
     \<lparr>req_method = POST, url = API_BASE @ ascii ''/ingest'', headers = [],
      body = FormData (map (\<lambda>f. (ascii ''files'', f)) files)\<rparr>"

definition uploadDocuments_result :: "fetch_outcome \<Rightarrow> thrown + json" where
  "uploadDocuments_result out =
     (case await_fetch out of
        Inl e \<Rightarrow> Inl e
      | Inr response \<Rightarrow>
          if \<not> ok response
          then Inl (ErrorObj Error (ascii ''Upload failed: '' @ statusText response))
          else response_json response)"

definition inspectStructure_request :: request where
  "inspectStructure_request =
     \<lparr>req_method = GET, url = API_BASE @ ascii ''/inspect'', headers = [], body = NoBody\<rparr>"

definition inspectStructure_result :: "fetch_outcome \<Rightarrow> thrown + json" where
  "inspectStructure_result out =
     (case await_fetch out of
        Inl e \<Rightarrow> Inl e
      | Inr response \<Rightarrow>
          if \<not> ok response
          then Inl (ErrorObj Error (ascii ''Inspect failed: '' @ statusText response))
          else response_json response)"

text \<open>
  \<open>clearIndex(indexName?)\<close>: the argument is \<open>undefined\<close> (\<open>None\<close>) or a string, and
  \<open>indexName || null\<close> keeps a string only when it is not empty.
\<close>

definition clearIndex_request :: "jsstring option \<Rightarrow> request" where
  "clearIndex_request indexName =
     \<lparr>req_method = DELETE, url = API_BASE @ ascii ''/clear'', headers = json_headers,
      body = TextBody (JSON_stringify 0 (JObj [(ascii ''index_name'',
               (case indexName of
                  None \<Rightarrow> JNull
                | Some s \<Rightarrow> if s = [] then JNull else JStr s))]))\<rparr>"

definition clearIndex_result :: "fetch_outcome \<Rightarrow> thrown + json" where
  "clearIndex_result out =
     (case await_fetch out of
        Inl e \<Rightarrow> Inl e
      | Inr response \<Rightarrow>
          if \<not> ok response
          then Inl (ErrorObj Error (ascii ''Clear failed: '' @ statusText response))
          else response_json response)"

section \<open>Application state\<close>

datatype role = User | Assistant

record message =
  role :: role
  content :: jsstring
  sources :: "json list option"
  metadata :: "jsstring option"
  timestamp :: jsstring

datatype toast_variant = Default | Destructive

record toast =
  title :: jsstring
  description :: "json option"
  variant :: toast_variant

text \<open>
  A \<open>handleSend\<close> suspended at \<open>await apiService.query(question)\<close>: the locals its
  continuation still reads.
\<close>

record pending =
  question :: jsstring
  updatedMessages :: "message list"

text \<open>
  The \<open>useState\<close> cells of \<open>Index\<close> (\<open>messages\<close>), \<open>ChatInterface\<close> and
  \<open>AdminSidebar\<close>, the files held by the upload input, and the effects on the outside:
  the toasts raised, the requests issued, the queries still awaited. Scrolling, the
  focus of the input and \<open>console.log\<close> change none of these and are left out.
\<close>

record app =
  messages :: "message list"
  input :: jsstring
  isLoading :: bool
  logs :: "json list"
  in_flight :: "pending list"
  uploading :: bool
  inspecting :: bool
  clearing :: bool
  clearIndexName :: jsstring
  inspectData :: "json option"
  fileInput :: "file_handle list option"
  toasts :: "toast list"
  requests :: "request list"

definition initial :: app where
  "initial =
     \<lparr>messages = [], input = [], isLoading = False, logs = [], in_flight = [],
      uploading = False, inspecting = False, clearing = False, clearIndexName = [],
      inspectData = None, fileInput = None, toasts = [], requests = []\<rparr>"

section \<open>components/ChatInterface.tsx\<close>

text \<open>
  \<open>formatTimestamp()\<close> reads the clock; the text it returns is the argument \<open>ts\<close> of
  the functions below.
\<close>

subsection \<open>The defensive formatting of a response (lines 280 to 296)\<close>

definition no_answer_text :: jsstring where
  "no_answer_text = [0x26A0, 0xFE0F] @ ascii '' No answer received.''"

definition no_metadata_text :: jsstring where
  "no_metadata_text = ascii ''No metadata''"

fun format_answer :: "json option \<Rightarrow> jsstring" where
  "format_answer (Some (JStr s)) = s"
| "format_answer _ = no_answer_text"

fun format_sources :: "json option \<Rightarrow> json list" where
  "format_sources (Some (JArr xs)) = xs"
| "format_sources (Some (JStr s)) = map JStr (filter (\<lambda>p. p \<noteq> []) (split_on 0x0A s))"
| "format_sources _ = []"

fun format_metadata :: "json option \<Rightarrow> jsstring" where
  "format_metadata (Some (JStr s)) = s"
| "format_metadata (Some v) = (if truthy (Some v) then JSON_stringify 2 v else no_metadata_text)"
| "format_metadata None = no_metadata_text"

text \<open>\<open>if (response.logs && Array.isArray(response.logs)) setLogs(response.logs)\<close>\<close>

fun update_logs :: "json option \<Rightarrow> app \<Rightarrow> app" where
  "update_logs (Some (JArr xs)) st = st\<lparr>logs := xs\<rparr>"
| "update_logs _ st = st"

subsection \<open>\<open>handleSend\<close>\<close>

text \<open>
  The part that runs at once, up to \<open>await apiService.query(question)\<close>. Every
  render creates its own \<open>handleSend\<close>, in which \<open>input\<close>, \<open>isLoading\<close> and \<open>messages\<close>
  are constants: the values of the state \<open>r\<close> that was rendered. The setters act on the
  live state \<open>st\<close>, which is \<open>r\<close> itself at the first invocation after a render and
  differs from it at a further invocation before the next render.
\<close>

definition handleSend :: "jsstring \<Rightarrow> app \<Rightarrow> app \<Rightarrow> app" where
  "handleSend ts r st =
     (let question = trim (input r) in
      if question = [] \<or> isLoading r then st
      else
        let userMessage = \<lparr>role = User, content = question, sources = None,
                             metadata = None, timestamp = ts\<rparr>;
            updatedMessages = messages r @ [userMessage]
        in st\<lparr>messages := updatedMessages,
                input := [],
                isLoading := True,
                requests := requests st @ [query_request question],
                in_flight := in_flight st @
                  [\<lparr>question = question, updatedMessages = updatedMessages\<rparr>]\<rparr>)"

text \<open>
  The message of the \<open>TypeError\<close> raised by \<open>response.answer\<close> when the body decoded
  to \<open>null\<close> (the text is the engine's; this is V8's).
\<close>

definition null_read_message :: jsstring where
  "null_read_message = ascii ''Cannot read properties of null (reading 'answer')''"

text \<open>The \<open>try\<close> block after the await: \<open>Inl\<close> is the exception that leaves it.\<close>

definition try_block :: "jsstring \<Rightarrow> fetch_outcome \<Rightarrow> pending \<Rightarrow> app \<Rightarrow> thrown + app" where
  "try_block ts out p st =
     (case query_result out of
        Inl e \<Rightarrow> Inl e
      | Inr response \<Rightarrow>
          if response = JNull then Inl (ErrorObj TypeError null_read_message)
          else
            let answer = format_answer (get_prop response (ascii ''answer''));
                sources = format_sources (get_prop response (ascii ''sources''));
                metadata = format_metadata (get_prop response (ascii ''metadata_used''));
                st1 = update_logs (get_prop response (ascii ''logs'')) st;
                assistantMessage = \<lparr>role = Assistant, content = answer,
                                      sources = Some sources, metadata = Some metadata,
                                      timestamp = ts\<rparr>
            in Inr (st1\<lparr>messages := updatedMessages p @ [assistantMessage]\<rparr>))"

definition apology_text :: jsstring where
  "apology_text = 0x274C #
     ascii '' Sorry, I encountered an error while processing your request. Please try again.''"

definition catch_block :: "jsstring \<Rightarrow> thrown \<Rightarrow> pending \<Rightarrow> app \<Rightarrow> app" where
  "catch_block ts error p st =
     (let errorMessage = \<lparr>role = Assistant, content = apology_text, sources = None,
                           metadata = None, timestamp = ts\<rparr>
      in st\<lparr>messages := updatedMessages p @ [errorMessage],
              toasts := toasts st @
                [\<lparr>title = ascii ''Error'',
                  description = Some (JStr (message_or (ascii ''Connection error'') error)),
                  variant = Destructive\<rparr>]\<rparr>)"

definition finally_block :: "app \<Rightarrow> app" where
  "finally_block st = st\<lparr>isLoading := False\<rparr>"

text \<open>
  The oldest awaited query settles with the outcome \<open>out\<close> of its fetch, and its
  \<open>handleSend\<close> runs to the end.
\<close>

definition handleSend_settle :: "jsstring \<Rightarrow> fetch_outcome \<Rightarrow> app \<Rightarrow> app" where
  "handleSend_settle ts out st =
     (case in_flight st of
        [] \<Rightarrow> st
      | p # ps \<Rightarrow>
          let st0 = st\<lparr>in_flight := ps\<rparr> in
          finally_block
            (case try_block ts out p st0 of
               Inr st1 \<Rightarrow> st1
             | Inl error \<Rightarrow> catch_block ts error p st0))"

subsection \<open>\<open>handleClearChat\<close>\<close>

definition handleClearChat :: "app \<Rightarrow> app" where
  "handleClearChat st =
     st\<lparr>messages := [],
        toasts := toasts st @
          [\<lparr>title = ascii ''Chat Cleared'',
            description = Some (JStr (ascii ''Chat history has been cleared'')),
            variant = Default\<rparr>]\<rparr>"

section \<open>components/AdminSidebar.tsx\<close>

subsection \<open>\<open>handleFileUpload\<close>\<close>

text \<open>\<open>Array.from(event.target.files || [])\<close>\<close>

fun selected_files :: "file_handle list option \<Rightarrow> file_handle list" where
  "selected_files None = []"
| "selected_files (Some fs) = fs"

definition handleFileUpload :: "app \<Rightarrow> app" where
  "handleFileUpload st =
     (let files = selected_files (fileInput st) in
      if length files = 0 then st
      else st\<lparr>uploading := True,
              requests := requests st @ [uploadDocuments_request files]\<rparr>)"

text \<open>
  After the await; \<open>files\<close> is the local of the suspended handler. The \<open>finally\<close>
  clause empties the file input.
\<close>

definition handleFileUpload_settle :: "file_handle list \<Rightarrow> fetch_outcome \<Rightarrow> app \<Rightarrow> app" where
  "handleFileUpload_settle files out st =
     (let st1 =
        (case uploadDocuments_result out of
           Inr result \<Rightarrow>
             st\<lparr>toasts := toasts st @
               [\<lparr>title = ascii ''Upload Successful'',
                 description = Some (JStr (ascii ''Uploaded '' @ nat_digits (length files) @
                                           ascii '' documents successfully'')),
                 variant = Default\<rparr>]\<rparr>
         | Inl error \<Rightarrow>
             st\<lparr>toasts := toasts st @
               [\<lparr>title = ascii ''Upload Failed'',
                 description = Some (JStr (message_or (ascii ''Unknown error'') error)),
                 variant = Destructive\<rparr>]\<rparr>)
      in st1\<lparr>uploading := False, fileInput := Some []\<rparr>)"

subsection \<open>\<open>handleInspectStructure\<close>\<close>

definition handleInspectStructure :: "app \<Rightarrow> app" where
  "handleInspectStructure st =
     st\<lparr>inspecting := True, requests := requests st @ [inspectStructure_request]\<rparr>"

definition handleInspectStructure_settle :: "fetch_outcome \<Rightarrow> app \<Rightarrow> app" where
  "handleInspectStructure_settle out st =
     (let st1 =
        (case inspectStructure_result out of
           Inr structure \<Rightarrow>
             st\<lparr>inspectData := Some structure,
                toasts := toasts st @
                  [\<lparr>title = ascii ''Structure Retrieved'',
                    description = Some (JStr (ascii ''Weaviate structure fetched successfully'')),
                    variant = Default\<rparr>]\<rparr>
         | Inl error \<Rightarrow>
             st\<lparr>toasts := toasts st @
               [\<lparr>title = ascii ''Inspect Failed'',
                 description = Some (JStr (message_or (ascii ''Unknown error'') error)),
                 variant = Destructive\<rparr>]\<rparr>)
      in st1\<lparr>inspecting := False\<rparr>)"

subsection \<open>\<open>handleClearIndex\<close>\<close>

text \<open>\<open>clearIndexName || undefined\<close>: a string is falsy exactly when it is empty.\<close>

definition or_undefined :: "jsstring \<Rightarrow> jsstring option" where
  "or_undefined s = (if s = [] then None else Some s)"

text \<open>
  \<open>clearIndexName\<close> is the constant of the rendered state \<open>r\<close>, as in \<open>handleSend\<close>.
\<close>

definition handleClearIndex :: "app \<Rightarrow> app \<Rightarrow> app" where
  "handleClearIndex r st =
     st\<lparr>clearing := True,
        requests := requests st @ [clearIndex_request (or_undefined (clearIndexName r))]\<rparr>"

text \<open>
  After the await. \<open>result.message\<close> throws a \<open>TypeError\<close> inside the \<open>try\<close> block when
  the body decoded to \<open>null\<close>.
\<close>

definition null_message_read :: jsstring where
  "null_message_read = ascii ''Cannot read properties of null (reading 'message')''"

definition handleClearIndex_settle :: "fetch_outcome \<Rightarrow> app \<Rightarrow> app" where
  "handleClearIndex_settle out st =
     (let outcome =
        (case clearIndex_result out of
           Inl e \<Rightarrow> Inl e
         | Inr result \<Rightarrow>
             if result = JNull then Inl (ErrorObj TypeError null_message_read)
             else Inr result);
          st1 =
        (case outcome of
           Inr result \<Rightarrow>
             st\<lparr>clearIndexName := [],
                toasts := toasts st @
                  [\<lparr>title = ascii ''Clear Successful'',
                    description = get_prop result (ascii ''message''),
                    variant = Default\<rparr>]\<rparr>
         | Inl error \<Rightarrow>
             st\<lparr>toasts := toasts st @
               [\<lparr>title = ascii ''Clear Failed'',
                 description = Some (JStr (message_or (ascii ''Unknown error'') error)),
                 variant = Destructive\<rparr>]\<rparr>)
      in st1\<lparr>clearing := False\<rparr>)"

section \<open>Runs of the application\<close>

text \<open>
  What can happen: the user types, picks files, presses a button, or an awaited request
  settles (the oldest awaited query first). The timestamp of an event is the clock's text
  at that moment. React renders again after an event; \<open>SameRender es\<close> is a sequence of
  events that reach the handlers of one and the same render, before the next one, as
  when a script dispatches two events in a row.
\<close>

datatype event =
    TypeInput jsstring
  | Send jsstring
  | QuerySettles jsstring fetch_outcome
  | ClearChat
  | PickFiles "file_handle list option"
  | UploadSettles "file_handle list" fetch_outcome
  | Inspect
  | InspectSettles fetch_outcome
  | TypeIndexName jsstring
  | ClearIndex
  | ClearIndexSettles fetch_outcome
  | SameRender "event list"

text \<open>One event, reaching the handlers of the render of \<open>r\<close> in the live state \<open>st\<close>.\<close>

fun invoke :: "app \<Rightarrow> app \<Rightarrow> event \<Rightarrow> app" where
  "invoke r st (TypeInput s) = st\<lparr>input := s\<rparr>"
| "invoke r st (Send ts) = handleSend ts r st"
| "invoke r st (QuerySettles ts out) = handleSend_settle ts out st"
| "invoke r st ClearChat = handleClearChat st"
| "invoke r st (PickFiles fs) = handleFileUpload (st\<lparr>fileInput := fs\<rparr>)"
| "invoke r st (UploadSettles files out) = handleFileUpload_settle files out st"
| "invoke r st Inspect = handleInspectStructure st"
| "invoke r st (InspectSettles out) = handleInspectStructure_settle out st"
| "invoke r st (TypeIndexName s) = st\<lparr>clearIndexName := s\<rparr>"
| "invoke r st ClearIndex = handleClearIndex r st"
| "invoke r st (ClearIndexSettles out) = handleClearIndex_settle out st"
| "invoke r st (SameRender es) = foldl (invoke r) st es"

text \<open>An event in the state \<open>st\<close> that is rendered: the handlers are those of \<open>st\<close>.\<close>

definition step :: "app \<Rightarrow> event \<Rightarrow> app" where
  "step st ev = invoke st st ev"

definition run :: "event list \<Rightarrow> app" where
  "run evs = foldl step initial evs"



section \<open>Concrete runs\<close>

text \<open>A question that was asked and is awaited; an answer that came with a log batch.\<close>

definition asked :: "event list" where
  "asked = [TypeInput (ascii '' hi ''), Send (ascii ''10:00'')]"

definition answered_with_logs :: "event list" where
  "answered_with_logs =
     [TypeInput (ascii ''hi''), Send (ascii ''10:00''),
      QuerySettles (ascii ''10:01'')
        (Responded \<lparr>ok = True, statusText = ascii ''OK'',
           payload = Parsed (JObj [(ascii ''answer'', JStr (ascii ''hello'')),
                                   (ascii ''logs'', JArr [JStr (ascii ''retrieved 3 chunks'')])])\<rparr>)]"

definition not_found :: http_response where
  "not_found = \<lparr>ok = False, statusText = ascii ''Not Found'', payload = Unparsable []\<rparr>"

definition answer_with :: "(jsstring \<times> json) list \<Rightarrow> fetch_outcome" where
  "answer_with kvs =
     Responded \<lparr>ok = True, statusText = ascii ''OK'',
                payload = Parsed (JObj ((ascii ''answer'', JStr (ascii ''hello'')) # kvs))\<rparr>"

definition two_lines :: jsstring where
  "two_lines = ascii ''a'' @ [0x0A] @ ascii ''b'' @ [0x0A]"

section \<open>Properties of the string functions\<close>

lemma split_on_not_Nil: "split_on sep s \<noteq> []"
  by (induction s) (auto split: list.splits)

lemma join_with_Cons: "ps \<noteq> [] \<Longrightarrow> join_with sep (p # ps) = p @ sep # join_with sep ps"
  by (cases ps) auto

lemma join_with_split_on: "join_with sep (split_on sep s) = s"
proof (induction s)
  case Nil
  show ?case by simp
next
  case (Cons c cs)
  show ?case
  proof (cases "c = sep")
    case True
    with Cons show ?thesis by (simp add: join_with_Cons split_on_not_Nil)
  next
    case False
    obtain p ps where ps: "split_on sep cs = p # ps"
      using split_on_not_Nil [of sep cs] by (cases "split_on sep cs") auto
    with Cons False show ?thesis by (cases ps) auto
  qed
qed

lemma split_on_no_sep: "p \<in> set (split_on sep s) \<Longrightarrow> sep \<notin> set p"
  by (induction s arbitrary: p) (auto split: if_splits list.splits)

section \<open>The query cycle keeps one query in flight\<close>







section \<open>What settles a query\<close>

lemma query_result_error: "query_result out = Inl e \<Longrightarrow> \<exists>c m. e = ErrorObj c m"
  by (cases out) (auto simp: query_result_def split: if_splits body_result.splits)

lemma try_block_Inl_iff:
  "try_block ts out p st = Inl e \<longleftrightarrow>
     query_result out = Inl e \<or>
     (query_result out = Inr JNull \<and> e = ErrorObj TypeError null_read_message)"
  by (auto simp: try_block_def Let_def split: sum.splits)



lemma handleSend_settle_success:
  assumes "in_flight st = p # ps" and "query_result out = Inr response" and "response \<noteq> JNull"
  shows "messages (handleSend_settle ts out st) = updatedMessages p @
           [\<lparr>role = Assistant,
             content = format_answer (get_prop response (ascii ''answer'')),
             sources = Some (format_sources (get_prop response (ascii ''sources''))),
             metadata = Some (format_metadata (get_prop response (ascii ''metadata_used''))),
             timestamp = ts\<rparr>]"
  using assms
  by (simp add: handleSend_settle_def finally_block_def try_block_def Let_def)

lemma falsy_non_text:
  "(\<not> truthy (Some v) \<and> (\<forall>s. v \<noteq> JStr s)) \<longleftrightarrow> v = JNull \<or> v = JBool False \<or> v = JNum 0"
  by (cases v) auto

lemma asked_in_flight:
  "in_flight (run asked) =
     [\<lparr>question = ascii ''hi'',
       updatedMessages = [\<lparr>role = User, content = ascii ''hi'', sources = None, metadata = None,
                            timestamp = ascii ''10:00''\<rparr>]\<rparr>]"
  by code_simp

lemma answer_with_result:
  "query_result (answer_with kvs) = Inr (JObj ((ascii ''answer'', JStr (ascii ''hello'')) # kvs))"
  by (simp add: answer_with_def query_result_def)

section \<open>The request of the clear call\<close>

lemma stringify_null_selector:
  \<open>JSON_stringify 0 (JObj [(ascii ''index_name'', JNull)]) = ascii ''{"index_name":null}''\<close>
  by code_simp

lemma quote_index_name: \<open>quote (ascii ''index_name'') = ascii ''"index_name"''\<close>
  by code_simp

lemma stringify_name_selector:
  \<open>JSON_stringify 0 (JObj [(ascii ''index_name'', JStr s)])
     = ascii ''{"index_name":'' @ quote s @ ascii ''}''\<close>
  by (simp add: JSON_stringify_def wrap_members_def quote_index_name) (simp add: ascii_def)

section \<open>The claims\<close>

text \<open>
  C1 (as amended). Whatever the messages and the log batch are, \<open>handleClearChat\<close>
  replaces the message sequence by the empty one and raises the "Chat Cleared"
  notification; the log batch is left as it was.
\<close>

theorem C1_clear_session:
  "messages (handleClearChat st) = [] \<and>
   logs (handleClearChat st) = logs st \<and>
   toasts (handleClearChat st) = toasts st @
     [\<lparr>title = ascii ''Chat Cleared'',
       description = Some (JStr (ascii ''Chat history has been cleared'')),
       variant = Default\<rparr>]"
  by (simp add: handleClearChat_def)

text \<open>
  C1 as stated fails: after an answer that carried one log line, clearing the chat leaves
  that log batch in place.
\<close>

theorem C1_clear_keeps_logs_counterexample:
  "logs (handleClearChat (run answered_with_logs)) \<noteq> []"
  by code_simp






text \<open>
  C4. When the awaited query fails, by an error of the facade or by the exception that
  reading a \<open>null\<close> body raises, the session becomes the messages of the send plus one
  assistant message with the fixed apology text and neither sources nor metadata; one
  destructive notification carries the message of the error; the log batch is unchanged
  and the cycle is idle again. The apology is never the text of an HTTP failure.
\<close>

theorem C4_failed_query:
  assumes "in_flight st = p # ps"
    and "query_result out = Inl e \<or>
         (query_result out = Inr JNull \<and> e = ErrorObj TypeError null_read_message)"
  shows "messages (handleSend_settle ts out st) = updatedMessages p @
           [\<lparr>role = Assistant, content = apology_text, sources = None, metadata = None,
             timestamp = ts\<rparr>] \<and>
         (\<exists>c m. e = ErrorObj c m \<and>
            toasts (handleSend_settle ts out st) = toasts st @
              [\<lparr>title = ascii ''Error'', description = Some (JStr m), variant = Destructive\<rparr>]) \<and>
         logs (handleSend_settle ts out st) = logs st \<and>
         \<not> isLoading (handleSend_settle ts out st) \<and>
         apology_text \<noteq> ascii ''Query failed: '' @ x"
proof -
  from assms(2) have fails: "try_block ts out p (st\<lparr>in_flight := ps\<rparr>) = Inl e"
    by (simp add: try_block_Inl_iff)
  from assms(2) obtain c m where e: "e = ErrorObj c m"
    using query_result_error by blast
  have "apology_text \<noteq> ascii ''Query failed: '' @ x"
    by (simp add: apology_text_def ascii_def)
  with assms(1) fails e show ?thesis
    by (simp add: handleSend_settle_def finally_block_def catch_block_def)
qed

theorem C4_failed_query_witness:
  "in_flight (run asked) =
     [\<lparr>question = ascii ''hi'',
       updatedMessages = [\<lparr>role = User, content = ascii ''hi'', sources = None, metadata = None,
                            timestamp = ascii ''10:00''\<rparr>]\<rparr>] \<and>
   query_result (Responded not_found) = Inl (ErrorObj Error (ascii ''Query failed: Not Found'')) \<and>
   messages (handleSend_settle (ascii ''10:01'') (Responded not_found) (run asked)) =
     [\<lparr>role = User, content = ascii ''hi'', sources = None, metadata = None,
       timestamp = ascii ''10:00''\<rparr>,
      \<lparr>role = Assistant, content = apology_text, sources = None, metadata = None,
       timestamp = ascii ''10:01''\<rparr>] \<and>
   toasts (handleSend_settle (ascii ''10:01'') (Responded not_found) (run asked)) =
     [\<lparr>title = ascii ''Error'', description = Some (JStr (ascii ''Query failed: Not Found'')),
       variant = Destructive\<rparr>]"
proof -
  let ?p = "\<lparr>question = ascii ''hi'',
       updatedMessages = [\<lparr>role = User, content = ascii ''hi'', sources = None, metadata = None,
                            timestamp = ascii ''10:00''\<rparr>]\<rparr>"
  have a: "in_flight (run asked) = ?p # []" by code_simp
  have b: "query_result (Responded not_found) = Inl (ErrorObj Error (ascii ''Query failed: Not Found''))"
    by code_simp
  have t: "toasts (run asked) = []" by code_simp
  from C4_failed_query [OF a disjI1 [OF b], of "ascii ''10:01''"] a b t
  show ?thesis by simp
qed

text \<open>
  C5. The sources of the assistant message are: the array itself when \<open>sources\<close> is an
  array; when it is a string, its pieces between line feeds, the empty ones dropped (the
  pieces joined by line feeds give the string back, and none holds a line feed); the
  empty sequence when \<open>sources\<close> is absent or of any other shape. A successful
  response puts exactly this value into the appended message.
\<close>

theorem C5_sources:
  "format_sources (Some (JArr xs)) = xs \<and>
   format_sources (Some (JStr s)) = map JStr (filter (\<lambda>p. p \<noteq> []) (split_on 0x0A s)) \<and>
   join_with 0x0A (split_on 0x0A s) = s \<and>
   (\<forall>p \<in> set (split_on 0x0A s). 0x0A \<notin> set p) \<and>
   format_sources None = [] \<and>
   format_sources (Some JNull) = [] \<and>
   format_sources (Some (JBool b)) = [] \<and>
   format_sources (Some (JNum n)) = [] \<and>
   format_sources (Some (JObj kvs)) = [] \<and>
   (in_flight st = p # ps \<and> query_result out = Inr response \<and> response \<noteq> JNull \<longrightarrow>
      sources (last (messages (handleSend_settle ts out st)))
        = Some (format_sources (get_prop response (ascii ''sources''))))"
  by (simp add: join_with_split_on split_on_no_sep handleSend_settle_success)

theorem C5_sources_witness:
  "format_sources (Some (JArr [JStr (ascii ''a''), JStr (ascii ''b'')]))
     = [JStr (ascii ''a''), JStr (ascii ''b'')] \<and>
   format_sources (Some (JStr two_lines)) = [JStr (ascii ''a''), JStr (ascii ''b'')] \<and>
   format_sources None = [] \<and>
   sources (last (messages (handleSend_settle (ascii ''10:01'')
      (answer_with [(ascii ''sources'', JStr two_lines)]) (run asked))))
     = Some [JStr (ascii ''a''), JStr (ascii ''b'')]"
proof -
  let ?kvs = "[(ascii ''sources'', JStr two_lines)]"
  let ?r = "JObj ((ascii ''answer'', JStr (ascii ''hello'')) # ?kvs)"
  have g: "get_prop ?r (ascii ''sources'') = Some (JStr two_lines)" by code_simp
  have f: "map JStr (filter (\<lambda>p. p \<noteq> []) (split_on 0x0A two_lines))
             = [JStr (ascii ''a''), JStr (ascii ''b'')]" by code_simp
  from C5_sources [where xs = "[JStr (ascii ''a''), JStr (ascii ''b'')]" and s = two_lines
      and st = "run asked" and out = "answer_with ?kvs" and response = ?r
      and ts = "ascii ''10:01''"]
    asked_in_flight answer_with_result [of ?kvs] g f
  show ?thesis by simp
qed

text \<open>
  C6 (as amended). The metadata of the assistant message is: the value of
  \<open>metadata_used\<close> itself when it is a string; \<open>JSON.stringify(v, null, 2)\<close> when it is
  present, not a string and truthy; the sentinel "No metadata" when it is absent. A
  successful response puts exactly this value into the appended message.
\<close>

theorem C6_metadata:
  "format_metadata (Some (JStr s)) = s \<and>
   ((\<forall>t. v \<noteq> JStr t) \<and> truthy (Some v) \<longrightarrow> format_metadata (Some v) = JSON_stringify 2 v) \<and>
   format_metadata None = no_metadata_text \<and>
   (in_flight st = p # ps \<and> query_result out = Inr response \<and> response \<noteq> JNull \<longrightarrow>
      metadata (last (messages (handleSend_settle ts out st)))
        = Some (format_metadata (get_prop response (ascii ''metadata_used''))))"
  by (cases v) (simp_all add: handleSend_settle_success)

theorem C6_metadata_witness:
  \<open>format_metadata (Some (JStr (ascii ''v2''))) = ascii ''v2'' \<and>
   truthy (Some (JObj [(ascii ''x'', JNum 1)])) \<and>
   format_metadata (Some (JObj [(ascii ''x'', JNum 1)]))
     = ascii ''{'' @ [0x0A] @ ascii ''  "x": 1'' @ [0x0A] @ ascii ''}'' \<and>
   format_metadata None = ascii ''No metadata'' \<and>
   metadata (last (messages (handleSend_settle (ascii ''10:01'')
      (answer_with [(ascii ''metadata_used'', JObj [(ascii ''x'', JNum 1)])]) (run asked))))
     = Some (ascii ''{'' @ [0x0A] @ ascii ''  "x": 1'' @ [0x0A] @ ascii ''}'')\<close>
proof -
  let ?v = "JObj [(ascii ''x'', JNum 1)]"
  let ?kvs = "[(ascii ''metadata_used'', ?v)]"
  let ?r = "JObj ((ascii ''answer'', JStr (ascii ''hello'')) # ?kvs)"
  have g: "get_prop ?r (ascii ''metadata_used'') = Some ?v" by code_simp
  have f: \<open>JSON_stringify 2 ?v = ascii ''{'' @ [0x0A] @ ascii ''  "x": 1'' @ [0x0A] @ ascii ''}''\<close>
    by code_simp
  have n: "no_metadata_text = ascii ''No metadata''" by (simp add: no_metadata_text_def)
  from C6_metadata [where s = "ascii ''v2''" and v = ?v
      and st = "run asked" and out = "answer_with ?kvs" and response = ?r
      and ts = "ascii ''10:01''"]
    asked_in_flight answer_with_result [of ?kvs] g f n
  show ?thesis by simp
qed

text \<open>
  C6 as stated fails: the number 0 is present and is not text, and the metadata is the
  sentinel, not its serialization "0".
\<close>

theorem C6_zero_counterexample:
  "format_metadata (Some (JNum 0)) = ascii ''No metadata'' \<and>
   JSON_stringify 2 (JNum 0) = ascii ''0'' \<and>
   format_metadata (Some (JNum 0)) \<noteq> JSON_stringify 2 (JNum 0)"
  by code_simp

text \<open>
  C7 (as amended). \<open>handleClearIndex\<close> issues one DELETE to \<open>/clear\<close>. With the empty
  name in the rendered state its body is \<open>{"index_name":null}\<close>; with any other name,
  one made of white space included, the body carries that name as a JSON string.
\<close>

theorem C7_clear_selector:
  \<open>requests (handleClearIndex r st) = requests st @
     [\<lparr>req_method = DELETE, url = ascii ''http://127.0.0.1:8002/clear'',
       headers = [(ascii ''Content-Type'', ascii ''application/json'')],
       body = TextBody
         (if clearIndexName r = [] then ascii ''{"index_name":null}''
          else ascii ''{"index_name":'' @ quote (clearIndexName r) @ ascii ''}'')\<rparr>]\<close>
  by (simp add: handleClearIndex_def clearIndex_request_def or_undefined_def json_headers_def
      stringify_null_selector stringify_name_selector API_BASE_def) (simp add: ascii_def)

theorem C7_clear_selector_witness:
  \<open>body (last (requests (handleClearIndex initial initial)))
     = TextBody (ascii ''{"index_name":null}'')\<close>
  using C7_clear_selector [of initial initial] by (simp add: initial_def)

text \<open>
  C7 as stated fails: with a name of two spaces the body carries the two spaces, not
  \<open>null\<close>.
\<close>

theorem C7_whitespace_name_counterexample:
  \<open>body (last (requests (handleClearIndex (initial\<lparr>clearIndexName := ascii ''  ''\<rparr>)
                                          (initial\<lparr>clearIndexName := ascii ''  ''\<rparr>))))
     = TextBody (ascii ''{"index_name":"  "}'') \<and>
   ascii ''{"index_name":"  "}'' \<noteq> ascii ''{"index_name":null}''\<close>
  by code_simp

text \<open>
  C8. For each of the four calls, a response whose \<open>ok\<close> is false makes the call reject
  with an \<open>Error\<close> whose message ends in the status text, and a fetch that got no
  response makes it reject with the \<open>TypeError\<close> of the fetch; the two rejections are
  never the same value.
\<close>

theorem C8_facade_errors:
  "(\<not> ok r \<longrightarrow>
      query_result (Responded r) = Inl (ErrorObj Error (ascii ''Query failed: '' @ statusText r)) \<and>
      uploadDocuments_result (Responded r) = Inl (ErrorObj Error (ascii ''Upload failed: '' @ statusText r)) \<and>
      inspectStructure_result (Responded r) = Inl (ErrorObj Error (ascii ''Inspect failed: '' @ statusText r)) \<and>
      clearIndex_result (Responded r) = Inl (ErrorObj Error (ascii ''Clear failed: '' @ statusText r))) \<and>
   query_result (NetworkFailure m) = Inl (ErrorObj TypeError m) \<and>
   uploadDocuments_result (NetworkFailure m) = Inl (ErrorObj TypeError m) \<and>
   inspectStructure_result (NetworkFailure m) = Inl (ErrorObj TypeError m) \<and>
   clearIndex_result (NetworkFailure m) = Inl (ErrorObj TypeError m) \<and>
   (\<not> ok r \<longrightarrow>
      query_result (Responded r) \<noteq> query_result (NetworkFailure m') \<and>
      uploadDocuments_result (Responded r) \<noteq> uploadDocuments_result (NetworkFailure m') \<and>
      inspectStructure_result (Responded r) \<noteq> inspectStructure_result (NetworkFailure m') \<and>
      clearIndex_result (Responded r) \<noteq> clearIndex_result (NetworkFailure m'))"
  by (simp add: query_result_def uploadDocuments_result_def inspectStructure_result_def
      clearIndex_result_def)

theorem C8_facade_errors_witness:
  "\<not> ok not_found \<and>
   query_result (Responded not_found) = Inl (ErrorObj Error (ascii ''Query failed: Not Found'')) \<and>
   clearIndex_result (Responded not_found) = Inl (ErrorObj Error (ascii ''Clear failed: Not Found'')) \<and>
   query_result (NetworkFailure (ascii ''Failed to fetch''))
     = Inl (ErrorObj TypeError (ascii ''Failed to fetch'')) \<and>
   query_result (Responded not_found) \<noteq> query_result (NetworkFailure (ascii ''Failed to fetch''))"
  using C8_facade_errors [of not_found "ascii ''Failed to fetch''" "ascii ''Failed to fetch''"]
  by (simp add: not_found_def ascii_def)

text \<open>
  C9. When the upload input holds no file, \<open>handleFileUpload\<close> returns at once: the
  state is unchanged, so no request is issued and \<open>uploading\<close> is not set.
\<close>

theorem C9_upload_without_files:
  assumes "selected_files (fileInput st) = []"
  shows "handleFileUpload st = st \<and>
         requests (handleFileUpload st) = requests st \<and>
         uploading (handleFileUpload st) = uploading st"
  using assms by (simp add: handleFileUpload_def)

theorem C9_upload_without_files_witness:
  "selected_files (fileInput (initial\<lparr>fileInput := Some []\<rparr>)) = [] \<and>
   requests (handleFileUpload (initial\<lparr>fileInput := Some []\<rparr>)) = [] \<and>
   \<not> uploading (handleFileUpload (initial\<lparr>fileInput := Some []\<rparr>))"
  using C9_upload_without_files [of "initial\<lparr>fileInput := Some []\<rparr>"]
  by (simp add: initial_def)

text \<open>
  C10. When \<open>metadata_used\<close> is the number 0, \<open>false\<close> or \<open>null\<close>, the metadata is the
  sentinel "No metadata". For a value that is not a string the serialization is produced
  exactly when the value is truthy, and the falsy ones are exactly these three.
\<close>

theorem C10_falsy_metadata:
  "format_metadata (Some (JNum 0)) = no_metadata_text \<and>
   format_metadata (Some (JBool False)) = no_metadata_text \<and>
   format_metadata (Some JNull) = no_metadata_text \<and>
   ((\<forall>t. v \<noteq> JStr t) \<longrightarrow>
      format_metadata (Some v) = (if truthy (Some v) then JSON_stringify 2 v else no_metadata_text)) \<and>
   ((\<forall>t. v \<noteq> JStr t) \<and> \<not> truthy (Some v) \<longleftrightarrow> v = JNull \<or> v = JBool False \<or> v = JNum 0) \<and>
   (in_flight st = p # ps \<and> query_result out = Inr response \<and>
    get_prop response (ascii ''metadata_used'') \<in> {Some (JNum 0), Some (JBool False), Some JNull} \<longrightarrow>
      metadata (last (messages (handleSend_settle ts out st))) = Some no_metadata_text)"
proof -
  have link: "metadata (last (messages (handleSend_settle ts out st))) = Some no_metadata_text"
    if "in_flight st = p # ps" "query_result out = Inr response"
      "get_prop response (ascii ''metadata_used'') \<in> {Some (JNum 0), Some (JBool False), Some JNull}"
  proof -
    from that(3) have "response \<noteq> JNull" by auto
    from handleSend_settle_success [OF that(1,2) this, of ts] that(3)
    show ?thesis by auto
  qed
  show ?thesis
    using link falsy_non_text [of v] by (cases v) auto
qed

theorem C10_falsy_metadata_witness:
  "format_metadata (Some (JNum 0)) = ascii ''No metadata'' \<and>
   get_prop (JObj [(ascii ''answer'', JStr (ascii ''hello'')), (ascii ''metadata_used'', JBool False)])
            (ascii ''metadata_used'') = Some (JBool False) \<and>
   metadata (last (messages (handleSend_settle (ascii ''10:01'')
      (answer_with [(ascii ''metadata_used'', JBool False)]) (run asked))))
     = Some (ascii ''No metadata'')"
proof -
  let ?kvs = "[(ascii ''metadata_used'', JBool False)]"
  let ?r = "JObj ((ascii ''answer'', JStr (ascii ''hello'')) # ?kvs)"
  have g: "get_prop ?r (ascii ''metadata_used'') = Some (JBool False)" by code_simp
  have n: "no_metadata_text = ascii ''No metadata''" by (simp add: no_metadata_text_def)
  from C10_falsy_metadata [where v = "JBool False"
      and st = "run asked" and out = "answer_with ?kvs" and response = ?r
      and ts = "ascii ''10:01''"]
    asked_in_flight answer_with_result [of ?kvs] g n
  show ?thesis by simp
qed

end
